theory Spec2Isabelle
  imports Main "HOL-Library.AList"
begin

section \<open>JavaScript values\<close>

text \<open>
  The values that travel through \<^verbatim>\<open>src/utils/topcoder-api-helper.js\<close>: parsed JSON bodies,
  plus \<^verbatim>\<open>undefined\<close>. Numbers are the integers (JSON numbers with a fraction play no part
  in the helper: a number is only tested for being zero, read as a length, or printed
  into a string). An object is the list of its own properties, keys distinct, in the
  order the runtime enumerates them.
\<close>

datatype json =
    JUndefined
  | JNull
  | JBool bool
  | JNum int
  | JStr string
  | JArr "json list"
  | JObj "(string \<times> json) list"

text \<open>\<^verbatim>\<open>if (v)\<close> and \<^verbatim>\<open>!v\<close>: the falsy values are undefined, null, false, 0 and the empty string.\<close>

fun truthy :: "json \<Rightarrow> bool" where
  "truthy JUndefined = False"
| "truthy JNull = False"
| "truthy (JBool b) = b"
| "truthy (JNum n) = (n \<noteq> 0)"
| "truthy (JStr s) = (s \<noteq> [])"
| "truthy (JArr xs) = True"
| "truthy (JObj kvs) = True"

text \<open>
  \<^verbatim>\<open>v[k]\<close> on a value that is neither null nor undefined, for the property names the
  helper reads (\<^verbatim>\<open>id\<close>, \<^verbatim>\<open>id_token\<close>, \<^verbatim>\<open>refresh_token\<close>, \<^verbatim>\<open>result\<close>, \<^verbatim>\<open>content\<close>, \<^verbatim>\<open>token\<close>,
  \<^verbatim>\<open>userId\<close>, \<^verbatim>\<open>billingAccountId\<close>, \<^verbatim>\<open>roleId\<close>): none of them is a property of a string, a
  number, a boolean or an array, so only an object can answer.
\<close>

fun property :: "json \<Rightarrow> string \<Rightarrow> json" where
  "property (JObj kvs) k = (case map_of kvs k of None \<Rightarrow> JUndefined | Some v \<Rightarrow> v)"
| "property v k = JUndefined"

text \<open>lodash's \<^verbatim>\<open>_.get(v, 'a.b.c')\<close>: it stops with undefined at a null or undefined value
  instead of raising.\<close>

fun lodash_get :: "json \<Rightarrow> string list \<Rightarrow> json" where
  "lodash_get v [] = v"
| "lodash_get v (k # ks) =
     (if v = JNull \<or> v = JUndefined then JUndefined else lodash_get (property v k) ks)"

text \<open>Decimal digits of a natural number, for numbers inside template strings.\<close>

function string_of_nat :: "nat \<Rightarrow> string" where
  "string_of_nat n =
     (if n < 10 then [char_of (48 + n)]
      else string_of_nat (n div 10) @ [char_of (48 + n mod 10)])"
  by pat_completeness auto
termination
  by (relation "measure (\<lambda>n. n)") auto

declare string_of_nat.simps [simp del]

definition string_of_int :: "int \<Rightarrow> string" where
  "string_of_int i = (if i < 0 then CHR ''-'' # string_of_nat (nat (- i)) else string_of_nat (nat i))"

fun join_comma :: "string list \<Rightarrow> string" where
  "join_comma [] = []"
| "join_comma [s] = s"
| "join_comma (s # t # ss) = s @ '','' @ join_comma (t # ss)"

text \<open>
  What a template string \<^verbatim>\<open>`${v}`\<close> prints for a value. A safe integer (at most \<open>2^53 - 1\<close>
  in size) prints in decimal. Beyond that the runtime prints the shortest digits that
  read back as the same number, in exponent form from \<open>10^21\<close> on (\<^verbatim>\<open>1e+21\<close>): that text
  is left to the runtime, \<open>toString\<close> being its \<^verbatim>\<open>Number.prototype.toString\<close>. Inside an
  array, null and undefined print as the empty string.
\<close>

fun js_String :: "(int \<Rightarrow> string) \<Rightarrow> json \<Rightarrow> string" where
  "js_String toString JUndefined = ''undefined''"
| "js_String toString JNull = ''null''"
| "js_String toString (JBool b) = (if b then ''true'' else ''false'')"
| "js_String toString (JNum n) =
     (if - 9007199254740991 \<le> n \<and> n \<le> 9007199254740991 then string_of_int n
      else toString n)"
| "js_String toString (JStr s) = s"
| "js_String toString (JArr xs) =
     join_comma
       (map (\<lambda>x. if x = JNull \<or> x = JUndefined then [] else js_String toString x) xs)"
| "js_String toString (JObj kvs) = ''[object Object]''"

text \<open>\<^verbatim>\<open>_.assign({}, a, b)\<close> on own properties: a key of \<open>a\<close> keeps its place and takes
  the value of \<open>b\<close>, a new key of \<open>b\<close> goes to the end.\<close>

definition lodash_assign :: "(string \<times> json) list \<Rightarrow> (string \<times> json) list \<Rightarrow> (string \<times> json) list" where
  "lodash_assign a b = fold (\<lambda>(k, v). AList.update k v) b a"

section \<open>Collaborators: transport, credential issuer, token decoder, configuration\<close>

datatype http_verb = GET | POST | PATCH | DELETE

text \<open>
  One call of axios. \<open>body\<close> is the request body (\<^verbatim>\<open>data\<close> of \<^verbatim>\<open>axios.delete\<close>),
  \<open>headers\<close> the \<^verbatim>\<open>headers\<close> object of the request configuration, \<open>options\<close> every other
  key the caller puts in the configuration.
\<close>

record request =
  verb :: http_verb
  url :: string
  body :: "json option"
  headers :: "(string \<times> string) list"
  options :: "(string \<times> string) list"

record response =
  status :: int
  data :: json

text \<open>
  What can be thrown. \<open>AxiosError message config response\<close> is the error axios rejects
  with: \<open>response\<close> is present when the server answered (a non-2xx status) and absent
  when no answer came (network failure, timeout). \<open>Error\<close> is \<^verbatim>\<open>new Error(message)\<close>,
  \<open>TypeError\<close> the runtime's fault on reading a property of undefined or null and on
  calling what is no function, \<open>RangeError\<close> its fault on making an array of an invalid
  length, \<open>Foreign\<close> an error of a collaborator
  (the credential issuer, the token decoder). \<open>UpstreamRequestError\<close> is the normalised
  error of \<^verbatim>\<open>./errors\<close> (see \<open>convertTopcoderApiError\<close> below).
\<close>

datatype js_error =
    Error string
  | TypeError string
  | RangeError string
  | AxiosError string json "response option"
  | Foreign string
  | UpstreamRequestError string js_error

text \<open>The observable calls, in the order they are made.\<close>

datatype event =
    MachineToken string string
  | Http request

text \<open>The claims of a decoded token: \<open>iat\<close> is the issued-at number, \<open>None\<close> when the
  token carries none (\<^verbatim>\<open>undefined > n\<close> is false).\<close>

record jwt =
  iat :: "int option"

text \<open>
  The collaborators answer as they please: the transport and the issuer may depend on
  everything that was called before. \<open>Number_toString\<close> is the runtime's printing of a
  number beyond the safe integers (see \<open>js_String\<close>).
\<close>

record env =
  axios :: "event list \<Rightarrow> request \<Rightarrow> js_error + response"
  getMachineToken :: "event list \<Rightarrow> string \<Rightarrow> string \<Rightarrow> js_error + string"
  jwtDecode :: "json \<Rightarrow> js_error + jwt"
  Number_toString :: "int \<Rightarrow> string"

record config =
  TC_AUTHN_URL :: string
  TC_AUTHN_REQUEST_BODY :: json
  TC_AUTHZ_URL :: string
  TC_API_URL :: string
  TC_API_URL_V3 :: string
  AUTH0_CLIENT_ID :: string
  AUTH0_CLIENT_SECRET :: string
  NEW_CHALLENGE_TEMPLATE :: "(string \<times> json) list"
  TYPE_ID_FIRST2FINISH :: json
  DEFAULT_TIMELINE_TEMPLATE_ID :: json
  ROLE_ID_SUBMITTER :: string

section \<open>State and control flow\<close>

text \<open>The module's state is \<^verbatim>\<open>let cachedAccessToken\<close> (undefined at load); \<open>trace\<close> records
  the calls made to the collaborators.\<close>

record state =
  cachedAccessToken :: json
  trace :: "event list"

type_synonym 'a prog = "state \<Rightarrow> (js_error + 'a) \<times> state"

definition return :: "'a \<Rightarrow> 'a prog" where
  "return v = (\<lambda>s. (Inr v, s))"

definition throw :: "js_error \<Rightarrow> 'a prog" where
  "throw e = (\<lambda>s. (Inl e, s))"

text \<open>\<^verbatim>\<open>const x = await m; k(x)\<close>: a rejection of \<open>m\<close> leaves the function.\<close>

definition await :: "'a prog \<Rightarrow> ('a \<Rightarrow> 'b prog) \<Rightarrow> 'b prog" where
  "await m k = (\<lambda>s. case m s of (Inl e, s') \<Rightarrow> (Inl e, s') | (Inr v, s') \<Rightarrow> k v s')"

text \<open>\<^verbatim>\<open>try { m } catch (err) { h(err) }\<close>\<close>

definition try_catch :: "'a prog \<Rightarrow> (js_error \<Rightarrow> 'a prog) \<Rightarrow> 'a prog" where
  "try_catch m h = (\<lambda>s. case m s of (Inl e, s') \<Rightarrow> h e s' | (Inr v, s') \<Rightarrow> (Inr v, s'))"

definition axios_call :: "env \<Rightarrow> request \<Rightarrow> response prog" where
  "axios_call env req = (\<lambda>s. (axios env (trace s) req, s\<lparr>trace := trace s @ [Http req]\<rparr>))"

text \<open>A call of a collaborator that computes without touching the module's state.\<close>

definition settle :: "js_error + 'a \<Rightarrow> 'a prog" where
  "settle r = (\<lambda>s. (r, s))"

definition read_cachedAccessToken :: "json prog" where
  "read_cachedAccessToken = (\<lambda>s. (Inr (cachedAccessToken s), s))"

definition write_cachedAccessToken :: "json \<Rightarrow> unit prog" where
  "write_cachedAccessToken v = (\<lambda>s. (Inr (), s\<lparr>cachedAccessToken := v\<rparr>))"

text \<open>\<^verbatim>\<open>v.k\<close> written without a guard: a TypeError on undefined and null.\<close>

definition member :: "json \<Rightarrow> string \<Rightarrow> json prog" where
  "member v k =
     (if v = JNull \<or> v = JUndefined
      then throw (TypeError (''Cannot read property '' @ k @ '' of '' @
                   (if v = JNull then ''null'' else ''undefined'')))
      else return (property v k))"

text \<open>
  \<^verbatim>\<open>err.response.data\<close>, which most handlers evaluate for their log line before they
  convert the error. Only an axios error that carries a response has \<^verbatim>\<open>err.response\<close>; on
  every other error \<^verbatim>\<open>err.response\<close> is undefined and reading \<^verbatim>\<open>.data\<close> of it is a
  TypeError, thrown from inside the handler.
\<close>

definition err_response_data :: "js_error \<Rightarrow> json prog" where
  "err_response_data err =
     (case err of
        AxiosError m c (Some r) \<Rightarrow> return (data r)
      | _ \<Rightarrow> throw (TypeError ''Cannot read property data of undefined''))"

text \<open>
  Modelled from the spec: \<^verbatim>\<open>errors.convertTopcoderApiError\<close> of \<^verbatim>\<open>./errors\<close>, which is not among
  the sources. The spec (4.3, 7): given the error and a description it produces one
  normalised error, an \<^verbatim>\<open>UpstreamRequestError\<close> carrying the description as its message and
  the given error as its wrapped cause; it never throws.
\<close>

definition convertTopcoderApiError :: "js_error \<Rightarrow> string \<Rightarrow> js_error" where
  "convertTopcoderApiError err message = UpstreamRequestError message err"

section \<open>The token provider\<close>

text \<open>
  The check of the cached token (lines 39-45): whether \<^verbatim>\<open>getAccessToken\<close> returns the cached
  value at once. \<open>now\<close> is \<^verbatim>\<open>new Date().getTime()\<close>. The decoder is asked only for a truthy
  cached value, and what it throws leaves \<^verbatim>\<open>getAccessToken\<close>.
\<close>

definition cached_still_valid :: "env \<Rightarrow> int \<Rightarrow> bool prog" where
  "cached_still_valid env now =
     await read_cachedAccessToken (\<lambda>cached.
     if truthy cached
     then await (settle (jwtDecode env cached)) (\<lambda>decoded.
            return (case iat decoded of None \<Rightarrow> False | Some t \<Rightarrow> now < t))
     else return False)"

text \<open>The two requests of the exchange: \<^verbatim>\<open>axios.post(config.TC_AUTHN_URL, ...)\<close> of line 48
  and \<^verbatim>\<open>axios.post(config.TC_AUTHZ_URL, ...)\<close> of lines 57-67.\<close>

definition authn_request :: "config \<Rightarrow> request" where
  "authn_request cfg =
     \<lparr>verb = POST, url = TC_AUTHN_URL cfg, body = Some (TC_AUTHN_REQUEST_BODY cfg),
      headers = [], options = []\<rparr>"

definition authz_request :: "env \<Rightarrow> config \<Rightarrow> json \<Rightarrow> json \<Rightarrow> request" where
  "authz_request env cfg v2IdToken v2RefreshToken =
     \<lparr>verb = POST, url = TC_AUTHZ_URL cfg,
      body = Some (JObj [(''param'',
               JObj [(''externalToken'', v2IdToken), (''refreshToken'', v2RefreshToken)])]),
      headers = [(''authorization'',
                  ''Bearer '' @ js_String (Number_toString env) v2IdToken)],
      options = []\<rparr>"

text \<open>\<^verbatim>\<open>getAccessToken\<close> (lines 37-76)\<close>

definition getAccessToken :: "env \<Rightarrow> config \<Rightarrow> int \<Rightarrow> json prog" where
  "getAccessToken env cfg now =
     await (cached_still_valid env now) (\<lambda>still_valid.
     if still_valid then read_cachedAccessToken
     else
       await (axios_call env (authn_request cfg)) (\<lambda>v2Response.
       let v2IdToken = lodash_get (data v2Response) [''id_token''];
           v2RefreshToken = lodash_get (data v2Response) [''refresh_token'']
       in
         if \<not> truthy v2IdToken \<or> \<not> truthy v2RefreshToken
         then throw (Error (''cannot authenticate with topcoder: '' @ TC_AUTHN_URL cfg))
         else
           await (axios_call env (authz_request env cfg v2IdToken v2RefreshToken)) (\<lambda>v3Response.
           await (write_cachedAccessToken
                    (lodash_get (data v3Response) [''result'', ''content'', ''token''])) (\<lambda>_.
           await read_cachedAccessToken (\<lambda>token.
           if \<not> truthy token
           then throw (Error (''cannot authorize with topcoder: '' @ TC_AUTHZ_URL cfg))
           else return token)))))"

text \<open>\<^verbatim>\<open>getM2Mtoken\<close> (lines 82-84): the issuer's token, or what the issuer throws.\<close>

definition getM2Mtoken :: "env \<Rightarrow> config \<Rightarrow> string prog" where
  "getM2Mtoken env cfg =
     (\<lambda>s. (getMachineToken env (trace s) (AUTH0_CLIENT_ID cfg) (AUTH0_CLIENT_SECRET cfg),
           s\<lparr>trace := trace s @ [MachineToken (AUTH0_CLIENT_ID cfg) (AUTH0_CLIENT_SECRET cfg)]\<rparr>))"

section \<open>The endpoint operations\<close>

text \<open>
  Each operation is written as in the source: the machine token first (outside the
  \<^verbatim>\<open>try\<close>), then the request inside the \<^verbatim>\<open>try\<close>, then the handler. The log lines are left
  out (the loggers never change the control flow), except for what evaluating their
  arguments can throw: \<^verbatim>\<open>err.response.data\<close> in the handlers (the other arguments,
  \<^verbatim>\<open>err.message\<close> and the serialised \<^verbatim>\<open>err.config\<close> and \<^verbatim>\<open>err\<close>, are read off the error
  object itself and taken to print). Identifiers and handles are the strings the template
  strings print.
\<close>

definition bearer_json_headers :: "string \<Rightarrow> (string \<times> string) list" where
  "bearer_json_headers apiKey =
     [(''authorization'', ''Bearer '' @ apiKey), (''Content-Type'', ''application/json'')]"

text \<open>\<^verbatim>\<open>createProject\<close> (lines 91-109)\<close>

definition createProject :: "env \<Rightarrow> config \<Rightarrow> string \<Rightarrow> json prog" where
  "createProject env cfg projectName =
     await (getM2Mtoken env cfg) (\<lambda>apiKey.
     try_catch
       (await (axios_call env
                 \<lparr>verb = POST, url = TC_API_URL cfg @ ''/projects'',
                  body = Some (JObj [(''name'', JStr projectName)]),
                  headers = bearer_json_headers apiKey, options = []\<rparr>) (\<lambda>response.
        return (lodash_get (data response) [''id''])))
       (\<lambda>err. throw (convertTopcoderApiError err ''Failed to create project.'')))"

text \<open>
  lodash's \<^verbatim>\<open>isArrayLike\<close>, with the length it finds: an array, a string, and an object whose
  \<^verbatim>\<open>length\<close> is a number from 0 to \<open>2^53 - 1\<close>.
\<close>

fun array_like_length :: "json \<Rightarrow> int option" where
  "array_like_length (JArr xs) = Some (int (length xs))"
| "array_like_length (JStr s) = Some (int (length s))"
| "array_like_length (JObj kvs) =
     (case map_of kvs ''length'' of
        Some (JNum n) \<Rightarrow> if 0 \<le> n \<and> n \<le> 9007199254740991 then Some n else None
      | _ \<Rightarrow> None)"
| "array_like_length v = None"

text \<open>
  \<^verbatim>\<open>_.map(challenge.prizes, f)\<close>. Over what is array-like lodash first makes the result array
  of that length, a RangeError beyond \<open>2^32 - 1\<close>, and then visits the indices below the
  length: the elements of an array, the characters of a string, the properties
  \<^verbatim>\<open>0\<close>, \<^verbatim>\<open>1\<close>, ... of an object (undefined where there is none). Over any other object it
  visits the own values, and over everything else nothing.
\<close>

fun lodash_map :: "(json \<Rightarrow> json) \<Rightarrow> json \<Rightarrow> js_error + json list" where
  "lodash_map f (JArr xs) = Inr (map f xs)"
| "lodash_map f (JStr s) = Inr (map (\<lambda>c. f (JStr [c])) s)"
| "lodash_map f (JObj kvs) =
     (case array_like_length (JObj kvs) of
        Some n \<Rightarrow>
          if n \<le> 4294967295
          then Inr (map (\<lambda>i. f (property (JObj kvs) (string_of_nat i))) [0..<nat n])
          else Inl (RangeError ''Invalid array length'')
      | None \<Rightarrow> Inr (map (\<lambda>kv. f (snd kv)) kvs))"
| "lodash_map f v = Inr []"

text \<open>\<^verbatim>\<open>createChallenge\<close> (lines 116-145). The body is built before the \<^verbatim>\<open>try\<close>, so a
  challenge that is null or undefined is a TypeError of the operation itself, and prizes
  with an overlong \<^verbatim>\<open>length\<close> are a RangeError of it.\<close>

definition createChallenge :: "env \<Rightarrow> config \<Rightarrow> json \<Rightarrow> json prog" where
  "createChallenge env cfg challenge =
     await (getM2Mtoken env cfg) (\<lambda>apiKey.
     await (member challenge ''name'') (\<lambda>name.
     await (member challenge ''detailedRequirements'') (\<lambda>detailedRequirements.
     await (member challenge ''prizes'') (\<lambda>prizes.
     await (settle (lodash_map
              (\<lambda>prize. JObj [(''type'', JStr ''money''), (''value'', prize)]) prizes))
       (\<lambda>prizeList.
     await (member challenge ''projectId'') (\<lambda>projectId.
     let body = lodash_assign (NEW_CHALLENGE_TEMPLATE cfg)
           [(''typeId'', TYPE_ID_FIRST2FINISH cfg),
            (''name'', name),
            (''description'', detailedRequirements),
            (''prizeSets'', JArr [JObj
               [(''type'', JStr ''Challenge prizes''),
                (''prizes'', JArr prizeList)]]),
            (''timelineTemplateId'', DEFAULT_TIMELINE_TEMPLATE_ID cfg),
            (''projectId'', projectId)]
     in
     try_catch
       (await (axios_call env
                 \<lparr>verb = POST, url = TC_API_URL cfg @ ''/challenges'',
                  body = Some (JObj body),
                  headers = bearer_json_headers apiKey, options = []\<rparr>) (\<lambda>response.
        return (lodash_get (data response) [''id''])))
       (\<lambda>err. throw (convertTopcoderApiError err ''Failed to create challenge.''))))))))"

text \<open>\<^verbatim>\<open>updateChallenge\<close> (lines 152-176)\<close>

definition updateChallenge :: "env \<Rightarrow> config \<Rightarrow> string \<Rightarrow> json \<Rightarrow> unit prog" where
  "updateChallenge env cfg id' challenge =
     await (getM2Mtoken env cfg) (\<lambda>apiKey.
     try_catch
       (await (axios_call env
                 \<lparr>verb = PATCH, url = TC_API_URL cfg @ ''/challenges/'' @ id',
                  body = Some challenge,
                  headers = bearer_json_headers apiKey, options = []\<rparr>) (\<lambda>response.
        return ()))
       (\<lambda>err.
          await (err_response_data err) (\<lambda>_.
          throw (convertTopcoderApiError err ''Failed to update challenge.''))))"

text \<open>\<^verbatim>\<open>activateChallenge\<close> (lines 182-207)\<close>

definition activateChallenge :: "env \<Rightarrow> config \<Rightarrow> string \<Rightarrow> unit prog" where
  "activateChallenge env cfg id' =
     await (getM2Mtoken env cfg) (\<lambda>apiKey.
     try_catch
       (await (axios_call env
                 \<lparr>verb = PATCH, url = TC_API_URL cfg @ ''/challenges/'' @ id',
                  body = Some (JObj [(''status'', JStr ''Active'')]),
                  headers = bearer_json_headers apiKey, options = []\<rparr>) (\<lambda>response.
        return ()))
       (\<lambda>err.
          await (err_response_data err) (\<lambda>_.
          throw (convertTopcoderApiError err ''Failed to activate challenge.''))))"

text \<open>\<^verbatim>\<open>getChallengeById\<close> (lines 214-238): the content type sits beside \<^verbatim>\<open>headers\<close> in
  the request configuration, not inside it.\<close>

definition getChallengeById :: "env \<Rightarrow> config \<Rightarrow> string \<Rightarrow> json prog" where
  "getChallengeById env cfg id' =
     await (getM2Mtoken env cfg) (\<lambda>apiKey.
     try_catch
       (await (axios_call env
                 \<lparr>verb = GET, url = TC_API_URL cfg @ ''/challenges/'' @ id',
                  body = None,
                  headers = [(''authorization'', ''Bearer '' @ apiKey)],
                  options = [(''Content-Type'', ''application/json'')]\<rparr>) (\<lambda>response.
        return (data response)))
       (\<lambda>err.
          await (err_response_data err) (\<lambda>_.
          throw (convertTopcoderApiError err ''Failed to get challenge details by Id''))))"

text \<open>\<^verbatim>\<open>closeChallenge\<close> (lines 246-278)\<close>

definition closeChallenge :: "env \<Rightarrow> config \<Rightarrow> string \<Rightarrow> json \<Rightarrow> string \<Rightarrow> unit prog" where
  "closeChallenge env cfg id' winnerId winnerUsername =
     await (getM2Mtoken env cfg) (\<lambda>apiKey.
     try_catch
       (await (axios_call env
                 \<lparr>verb = PATCH, url = TC_API_URL cfg @ ''/challenges/'' @ id',
                  body = Some (JObj
                    [(''status'', JStr ''Completed''),
                     (''winners'', JArr [JObj
                        [(''userId'', winnerId),
                         (''handle'', JStr winnerUsername),
                         (''placement'', JNum 1)]])]),
                  headers = bearer_json_headers apiKey, options = []\<rparr>) (\<lambda>response.
        return ()))
       (\<lambda>err.
          await (err_response_data err) (\<lambda>_.
          throw (convertTopcoderApiError err ''Failed to close challenge.''))))"

text \<open>\<^verbatim>\<open>getProjectBillingAccountId\<close> (lines 285-309)\<close>

definition getProjectBillingAccountId :: "env \<Rightarrow> config \<Rightarrow> string \<Rightarrow> json prog" where
  "getProjectBillingAccountId env cfg id' =
     await (getM2Mtoken env cfg) (\<lambda>apiKey.
     try_catch
       (await (axios_call env
                 \<lparr>verb = GET, url = TC_API_URL cfg @ ''/projects/'' @ id',
                  body = None,
                  headers = [(''authorization'', ''Bearer '' @ apiKey)],
                  options = []\<rparr>) (\<lambda>response.
        let billingAccountId = lodash_get (data response) [''billingAccountId'']
        in if \<not> truthy billingAccountId then return JNull else return billingAccountId))
       (\<lambda>err.
          await (err_response_data err) (\<lambda>_.
          throw (convertTopcoderApiError err ''Failed to get billing detail for the project.''))))"

text \<open>\<^verbatim>\<open>getTopcoderMemberId\<close> (lines 316-327): no token is requested and the request has
  no configuration at all.\<close>

definition getTopcoderMemberId :: "env \<Rightarrow> config \<Rightarrow> string \<Rightarrow> json prog" where
  "getTopcoderMemberId env cfg handle =
     try_catch
       (await (axios_call env
                 \<lparr>verb = GET, url = TC_API_URL_V3 cfg @ ''/members/'' @ handle,
                  body = None, headers = [], options = []\<rparr>) (\<lambda>response.
        return (lodash_get (data response) [''result'', ''content'', ''userId''])))
       (\<lambda>err. throw (convertTopcoderApiError err ''Failed to get topcoder member id.''))"

text \<open>\<^verbatim>\<open>addResourceToChallenge\<close> (lines 335-358)\<close>

definition addResourceToChallenge :: "env \<Rightarrow> config \<Rightarrow> string \<Rightarrow> string \<Rightarrow> string \<Rightarrow> unit prog" where
  "addResourceToChallenge env cfg id' handle roleId =
     await (getM2Mtoken env cfg) (\<lambda>apiKey.
     try_catch
       (await (axios_call env
                 \<lparr>verb = POST, url = TC_API_URL cfg @ ''/resources'',
                  body = Some (JObj
                    [(''challengeId'', JStr id'),
                     (''memberHandle'', JStr handle),
                     (''roleId'', JStr roleId)]),
                  headers = bearer_json_headers apiKey, options = []\<rparr>) (\<lambda>response.
        return ()))
       (\<lambda>err.
          await (err_response_data err) (\<lambda>_.
          throw (convertTopcoderApiError err ''Failed to add resource to the challenge.''))))"

text \<open>\<^verbatim>\<open>getResourcesFromChallenge\<close> (lines 365-380)\<close>

definition getResourcesFromChallenge :: "env \<Rightarrow> config \<Rightarrow> string \<Rightarrow> json prog" where
  "getResourcesFromChallenge env cfg id' =
     await (getM2Mtoken env cfg) (\<lambda>apiKey.
     try_catch
       (await (axios_call env
                 \<lparr>verb = GET, url = TC_API_URL cfg @ ''/resources?challengeId='' @ id',
                  body = None,
                  headers = [(''authorization'', ''Bearer '' @ apiKey)],
                  options = [(''Content-Type'', ''application/json'')]\<rparr>) (\<lambda>response.
        return (data response)))
       (\<lambda>err. throw (convertTopcoderApiError err ''Failed to fetch resource from the challenge.'')))"

text \<open>
  The body of \<^verbatim>\<open>resources.forEach(...)\<close> in \<^verbatim>\<open>roleAlreadySet\<close>: \<open>result\<close> is the flag the
  callback sets; \<^verbatim>\<open>resource.roleId\<close> is a TypeError on a null element.
\<close>

fun forEach_roleId :: "json list \<Rightarrow> string \<Rightarrow> bool \<Rightarrow> js_error + bool" where
  "forEach_roleId [] roleId result = Inr result"
| "forEach_roleId (resource # rest) roleId result =
     (if resource = JNull \<or> resource = JUndefined
      then Inl (TypeError (''Cannot read property roleId of '' @
                  (if resource = JNull then ''null'' else ''undefined'')))
      else forEach_roleId rest roleId
             (if property resource ''roleId'' = JStr roleId then True else result))"

text \<open>\<^verbatim>\<open>roleAlreadySet\<close> (lines 388-401): everything, the fetch included, is inside the
  \<^verbatim>\<open>try\<close>. Only an array has \<^verbatim>\<open>forEach\<close>.\<close>

definition roleAlreadySet :: "env \<Rightarrow> config \<Rightarrow> string \<Rightarrow> string \<Rightarrow> bool prog" where
  "roleAlreadySet env cfg id' roleId =
     try_catch
       (await (getResourcesFromChallenge env cfg id') (\<lambda>resources.
        case resources of
          JArr rs \<Rightarrow> settle (forEach_roleId rs roleId False)
        | JNull \<Rightarrow> throw (TypeError ''Cannot read property forEach of null'')
        | JUndefined \<Rightarrow> throw (TypeError ''Cannot read property forEach of undefined'')
        | _ \<Rightarrow> throw (TypeError ''resources.forEach is not a function'')))
       (\<lambda>err. throw (convertTopcoderApiError err ''Failed to fetch resource from the challenge.''))"

text \<open>\<^verbatim>\<open>removeResourceToChallenge\<close> (lines 458-482)\<close>

definition removeResourceToChallenge :: "env \<Rightarrow> config \<Rightarrow> string \<Rightarrow> string \<Rightarrow> string \<Rightarrow> unit prog" where
  "removeResourceToChallenge env cfg id' handle roleId =
     await (getM2Mtoken env cfg) (\<lambda>apiKey.
     try_catch
       (await (axios_call env
                 \<lparr>verb = DELETE, url = TC_API_URL cfg @ ''/resources'',
                  body = Some (JObj
                    [(''challengeId'', JStr id'),
                     (''memberHandle'', JStr handle),
                     (''roleId'', JStr roleId)]),
                  headers = bearer_json_headers apiKey, options = []\<rparr>) (\<lambda>response.
        return ()))
       (\<lambda>err.
          await (err_response_data err) (\<lambda>_.
          throw (convertTopcoderApiError err ''Failed to add resource to the challenge.''))))"

text \<open>\<^verbatim>\<open>unregisterUserFromChallenge\<close> (lines 408-410)\<close>

definition unregisterUserFromChallenge :: "env \<Rightarrow> config \<Rightarrow> string \<Rightarrow> string \<Rightarrow> string \<Rightarrow> unit prog" where
  "unregisterUserFromChallenge env cfg id' handle roleId =
     await (removeResourceToChallenge env cfg id' handle roleId) (\<lambda>_. return ())"

text \<open>\<^verbatim>\<open>cancelPrivateContent\<close> (lines 416-440)\<close>

definition cancelPrivateContent :: "env \<Rightarrow> config \<Rightarrow> string \<Rightarrow> unit prog" where
  "cancelPrivateContent env cfg id' =
     await (getM2Mtoken env cfg) (\<lambda>apiKey.
     try_catch
       (await (axios_call env
                 \<lparr>verb = PATCH, url = TC_API_URL cfg @ ''/challenges/'' @ id',
                  body = Some (JObj [(''status'', JStr ''Canceled'')]),
                  headers = bearer_json_headers apiKey, options = []\<rparr>) (\<lambda>response.
        return ()))
       (\<lambda>err.
          await (err_response_data err) (\<lambda>_.
          throw (convertTopcoderApiError err ''Failed to activate challenge.''))))"

text \<open>\<^verbatim>\<open>assignUserAsRegistrant\<close> (lines 448-450)\<close>

definition assignUserAsRegistrant :: "env \<Rightarrow> config \<Rightarrow> string \<Rightarrow> string \<Rightarrow> unit prog" where
  "assignUserAsRegistrant env cfg topcoderUsername challengeId =
     await (addResourceToChallenge env cfg challengeId topcoderUsername (ROLE_ID_SUBMITTER cfg))
       (\<lambda>_. return ())"

section \<open>The spec's names for the errors of the token provider\<close>

text \<open>
  The source throws plain \<^verbatim>\<open>Error\<close> objects that differ by their message. The spec (7)
  calls the error of line 53 \<^verbatim>\<open>AuthenticationError\<close> (the identity step did not yield the
  required tokens) and the error of line 72 \<^verbatim>\<open>AuthorizationError\<close> (the exchange step did
  not yield an access token).
\<close>

definition AuthenticationError :: "config \<Rightarrow> js_error" where
  "AuthenticationError cfg = Error (''cannot authenticate with topcoder: '' @ TC_AUTHN_URL cfg)"

definition AuthorizationError :: "config \<Rightarrow> js_error" where
  "AuthorizationError cfg = Error (''cannot authorize with topcoder: '' @ TC_AUTHZ_URL cfg)"

section \<open>Example collaborators\<close>

text \<open>A configuration, and collaborators that answer by the URL they are asked: the
  examples the general theorems are run on. No example prints a number beyond the safe
  integers, so that their \<open>Number_toString\<close> is never asked.\<close>

definition example_config :: config where
  "example_config =
     \<lparr>TC_AUTHN_URL = ''https://authn.example/oauth/ro'',
      TC_AUTHN_REQUEST_BODY = JObj [(''username'', JStr ''bot''), (''password'', JStr ''pw'')],
      TC_AUTHZ_URL = ''https://authz.example/v3/authorizations'',
      TC_API_URL = ''https://api.example/v5'',
      TC_API_URL_V3 = ''https://api.example/v3'',
      AUTH0_CLIENT_ID = ''client'',
      AUTH0_CLIENT_SECRET = ''secret'',
      NEW_CHALLENGE_TEMPLATE = [(''status'', JStr ''Draft'')],
      TYPE_ID_FIRST2FINISH = JStr ''f2f'',
      DEFAULT_TIMELINE_TEMPLATE_ID = JStr ''tl'',
      ROLE_ID_SUBMITTER = ''submitter''\<rparr>"

text \<open>The decoder knows two tokens: one issued at 2000, one issued at 500.\<close>

definition example_jwtDecode :: "json \<Rightarrow> js_error + jwt" where
  "example_jwtDecode v =
     (if v = JStr ''future.jwt'' then Inr \<lparr>iat = Some 2000\<rparr>
      else if v = JStr ''stale.jwt'' then Inr \<lparr>iat = Some 500\<rparr>
      else Inl (Foreign ''InvalidTokenError''))"

definition scripted_env :: "(request \<Rightarrow> js_error + response) \<Rightarrow> env" where
  "scripted_env script =
     \<lparr>axios = (\<lambda>tr req. script req),
      getMachineToken = (\<lambda>tr cid secret. Inr ''m2m.jwt''),
      jwtDecode = example_jwtDecode,
      Number_toString = (\<lambda>n. ''1e+21'')\<rparr>"

definition network_down :: js_error where
  "network_down = AxiosError ''connect ECONNREFUSED'' (JObj []) None"

definition server_error :: js_error where
  "server_error =
     AxiosError ''Request failed with status code 500'' (JObj [])
       (Some \<lparr>status = 500, data = JObj [(''message'', JStr ''Internal Server Error'')]\<rparr>)"

text \<open>Every request fails without an answer; every request is answered with status 500.\<close>

definition offline_env :: env where
  "offline_env = scripted_env (\<lambda>req. Inl network_down)"

definition failing_env :: env where
  "failing_env = scripted_env (\<lambda>req. Inl server_error)"

text \<open>Both steps of the exchange succeed.\<close>

definition exchange_env :: env where
  "exchange_env = scripted_env (\<lambda>req.
     if url req = ''https://authn.example/oauth/ro''
     then Inr \<lparr>status = 200,
               data = JObj [(''id_token'', JStr ''id.jwt''), (''refresh_token'', JStr ''refresh'')]\<rparr>
     else if url req = ''https://authz.example/v3/authorizations''
     then Inr \<lparr>status = 200,
               data = JObj [(''result'', JObj [(''content'', JObj [(''token'', JStr ''access.jwt'')])])]\<rparr>
     else Inl network_down)"

text \<open>The identity step answers without a refresh token.\<close>

definition no_refresh_env :: env where
  "no_refresh_env = scripted_env (\<lambda>req.
     if url req = ''https://authn.example/oauth/ro''
     then Inr \<lparr>status = 200, data = JObj [(''id_token'', JStr ''id.jwt'')]\<rparr>
     else Inl network_down)"

text \<open>The identity step succeeds, the authorization step answers without a token.\<close>

definition no_token_env :: env where
  "no_token_env = scripted_env (\<lambda>req.
     if url req = ''https://authn.example/oauth/ro''
     then Inr \<lparr>status = 200,
               data = JObj [(''id_token'', JStr ''id.jwt''), (''refresh_token'', JStr ''refresh'')]\<rparr>
     else if url req = ''https://authz.example/v3/authorizations''
     then Inr \<lparr>status = 200, data = JObj [(''result'', JObj [(''content'', JObj [])])]\<rparr>
     else Inl network_down)"

definition cold_state :: state where
  "cold_state = \<lparr>cachedAccessToken = JUndefined, trace = []\<rparr>"

definition warm_state :: state where
  "warm_state = \<lparr>cachedAccessToken = JStr ''future.jwt'', trace = []\<rparr>"

definition stale_state :: state where
  "stale_state = \<lparr>cachedAccessToken = JStr ''stale.jwt'', trace = []\<rparr>"

text \<open>A project whose billing account id is the number 0, and one with the id 80001012.\<close>

definition zero_billing_response :: response where
  "zero_billing_response = \<lparr>status = 200, data = JObj [(''id'', JNum 42), (''billingAccountId'', JNum 0)]\<rparr>"

definition zero_billing_env :: env where
  "zero_billing_env = scripted_env (\<lambda>req. Inr zero_billing_response)"

definition billing_env :: env where
  "billing_env = scripted_env (\<lambda>req.
     Inr \<lparr>status = 200, data = JObj [(''id'', JNum 42), (''billingAccountId'', JNum 80001012)]\<rparr>)"

text \<open>A project without a billing account id.\<close>

definition no_billing_env :: env where
  "no_billing_env = scripted_env (\<lambda>req. Inr \<lparr>status = 200, data = JObj [(''id'', JNum 42)]\<rparr>)"

text \<open>A challenge with the resources \<^verbatim>\<open>[{roleId: "A"}, {roleId: "B"}]\<close>, and one with none.\<close>

definition resources_env :: env where
  "resources_env = scripted_env (\<lambda>req.
     Inr \<lparr>status = 200,
          data = JArr [JObj [(''roleId'', JStr ''A'')], JObj [(''roleId'', JStr ''B'')]]\<rparr>)"

definition no_resources_env :: env where
  "no_resources_env = scripted_env (\<lambda>req. Inr \<lparr>status = 200, data = JArr []\<rparr>)"

text \<open>The member lookup answers with the user id 1234.\<close>

definition member_env :: env where
  "member_env = scripted_env (\<lambda>req.
     Inr \<lparr>status = 200,
          data = JObj [(''result'', JObj [(''content'', JObj [(''userId'', JNum 1234)])])]\<rparr>)"

section \<open>Properties\<close>

lemmas prog_defs =
  await_def try_catch_def return_def throw_def settle_def axios_call_def getM2Mtoken_def
  read_cachedAccessToken_def write_cachedAccessToken_def

text \<open>Awaiting a call only to return nothing afterwards is that call.\<close>

lemma await_return: "await m return s = m s"
  by (simp add: await_def return_def split: prod.splits sum.splits)

lemma await_return_unit: "await m (\<lambda>_. return ()) s = m s"
  for m :: "unit prog"
  by (simp add: await_return)

lemmas example_defs =
  example_config_def example_jwtDecode_def scripted_env_def network_down_def server_error_def
  offline_env_def failing_env_def exchange_env_def no_refresh_env_def no_token_env_def
  cold_state_def warm_state_def stale_state_def zero_billing_response_def zero_billing_env_def
  billing_env_def no_billing_env_def resources_env_def no_resources_env_def member_env_def

subsection \<open>The token provider\<close>

text \<open>
  C2. A cached token whose decoded issued-at lies after the current time is returned as
  it is, and the state, the trace of calls included, is untouched: neither exchange call
  is made.
\<close>

theorem getAccessToken_cached_future:
  assumes "truthy (cachedAccessToken s)"
    and "jwtDecode env (cachedAccessToken s) = Inr decoded"
    and "iat decoded = Some t"
    and "now < t"
  shows "getAccessToken env cfg now s = (Inr (cachedAccessToken s), s)"
  using assms by (simp add: getAccessToken_def cached_still_valid_def prog_defs)

theorem getAccessToken_cached_future_witness:
  "truthy (cachedAccessToken warm_state)
   \<and> jwtDecode offline_env (cachedAccessToken warm_state) = Inr \<lparr>iat = Some 2000\<rparr>
   \<and> (1000 :: int) < 2000
   \<and> getAccessToken offline_env example_config 1000 warm_state = (Inr (JStr ''future.jwt''), warm_state)
   \<and> trace (snd (getAccessToken offline_env example_config 1000 warm_state)) = []"
  using getAccessToken_cached_future
    [of warm_state offline_env "\<lparr>iat = Some 2000\<rparr>" 2000 1000 example_config]
  by (simp add: example_defs)

text \<open>The check of the cached token never changes the state.\<close>

lemma cached_still_valid_state: "snd (cached_still_valid env now s) = s"
  by (simp add: cached_still_valid_def prog_defs split: sum.splits)

lemma cached_still_valid_absent:
  "\<not> truthy (cachedAccessToken s) \<Longrightarrow> cached_still_valid env now s = (Inr False, s)"
  by (simp add: cached_still_valid_def prog_defs)

text \<open>
  C3. With no token cached (the cached value is undefined, or any other falsy value) and
  both steps of the exchange answering with their tokens, \<^verbatim>\<open>getAccessToken\<close> makes exactly two
  transport calls, the identity exchange and then the authorization exchange built from
  the identity step's tokens, stores the access token in the cache and returns it.
\<close>

theorem getAccessToken_cold_start:
  assumes "\<not> truthy (cachedAccessToken s)"
    and "axios env (trace s) (authn_request cfg) = Inr v2Response"
    and "v2IdToken = lodash_get (data v2Response) [''id_token'']"
    and "v2RefreshToken = lodash_get (data v2Response) [''refresh_token'']"
    and "truthy v2IdToken"
    and "truthy v2RefreshToken"
    and "axios env (trace s @ [Http (authn_request cfg)])
           (authz_request env cfg v2IdToken v2RefreshToken) = Inr v3Response"
    and "token = lodash_get (data v3Response) [''result'', ''content'', ''token'']"
    and "truthy token"
  shows "getAccessToken env cfg now s =
     (Inr token,
      s\<lparr>cachedAccessToken := token,
        trace := trace s @ [Http (authn_request cfg),
                            Http (authz_request env cfg v2IdToken v2RefreshToken)]\<rparr>)"
  using assms
  by (simp add: getAccessToken_def cached_still_valid_absent prog_defs Let_def
        del: lodash_get.simps)

theorem getAccessToken_cold_start_witness:
  "\<not> truthy (cachedAccessToken cold_state)
   \<and> truthy (JStr ''id.jwt'') \<and> truthy (JStr ''refresh'') \<and> truthy (JStr ''access.jwt'')
   \<and> getAccessToken exchange_env example_config 1000 cold_state =
       (Inr (JStr ''access.jwt''),
        \<lparr>cachedAccessToken = JStr ''access.jwt'',
         trace = [Http (authn_request example_config),
                  Http (authz_request exchange_env example_config (JStr ''id.jwt'')
                          (JStr ''refresh''))]\<rparr>)"
  using getAccessToken_cold_start
    [of cold_state exchange_env example_config
        "\<lparr>status = 200,
          data = JObj [(''id_token'', JStr ''id.jwt''), (''refresh_token'', JStr ''refresh'')]\<rparr>"
        "JStr ''id.jwt''" "JStr ''refresh''"
        "\<lparr>status = 200,
          data = JObj [(''result'', JObj [(''content'', JObj [(''token'', JStr ''access.jwt'')])])]\<rparr>"
        "JStr ''access.jwt''" 1000]
  by (simp add: example_defs authn_request_def authz_request_def)

text \<open>
  C4. Whenever the exchange is run (the cached token is absent or failed the check) and
  the identity step's answer lacks the id token or the refresh token (the field is
  omitted, or holds a falsy value), \<^verbatim>\<open>getAccessToken\<close> fails with the authentication error
  and the only call made is the identity exchange: the authorization exchange is never
  attempted.
\<close>

theorem getAccessToken_identity_tokens_missing:
  assumes "cached_still_valid env now s = (Inr False, s)"
    and "axios env (trace s) (authn_request cfg) = Inr v2Response"
    and "\<not> truthy (lodash_get (data v2Response) [''id_token''])
         \<or> \<not> truthy (lodash_get (data v2Response) [''refresh_token''])"
  shows "getAccessToken env cfg now s =
     (Inl (AuthenticationError cfg), s\<lparr>trace := trace s @ [Http (authn_request cfg)]\<rparr>)"
  using assms
  by (auto simp add: getAccessToken_def AuthenticationError_def prog_defs Let_def
        simp del: lodash_get.simps)

theorem getAccessToken_identity_tokens_missing_witness:
  "cached_still_valid no_refresh_env 1000 stale_state = (Inr False, stale_state)
   \<and> lodash_get (JObj [(''id_token'', JStr ''id.jwt'')]) [''refresh_token''] = JUndefined
   \<and> getAccessToken no_refresh_env example_config 1000 stale_state =
       (Inl (Error ''cannot authenticate with topcoder: https://authn.example/oauth/ro''),
        \<lparr>cachedAccessToken = JStr ''stale.jwt'', trace = [Http (authn_request example_config)]\<rparr>)"
  using getAccessToken_identity_tokens_missing
    [of no_refresh_env 1000 stale_state example_config
        "\<lparr>status = 200, data = JObj [(''id_token'', JStr ''id.jwt'')]\<rparr>"]
  by (simp add: example_defs authn_request_def AuthenticationError_def cached_still_valid_def
        prog_defs)

text \<open>Whenever the exchange is run, its first call is the identity exchange.\<close>

lemma getAccessToken_exchange_starts:
  assumes "cached_still_valid env now s = (Inr False, s)"
  shows "\<exists>rest. trace (snd (getAccessToken env cfg now s)) = trace s @ Http (authn_request cfg) # rest"
  using assms
  by (auto simp add: getAccessToken_def prog_defs Let_def simp del: lodash_get.simps
        split: sum.splits)

text \<open>
  C10. When the exchange is run, the identity step yields both tokens and the
  authorization step's answer holds no token (the field is absent, so that the value read
  is undefined, or it is another falsy value), \<^verbatim>\<open>getAccessToken\<close> fails with the
  authorization error after it has written that value into the cache: a token cached
  before is gone, the check of the cache fails at any later time, and the next call
  starts the exchange again with the identity step.
\<close>

theorem getAccessToken_authorization_token_missing:
  assumes "cached_still_valid env now s = (Inr False, s)"
    and "axios env (trace s) (authn_request cfg) = Inr v2Response"
    and "v2IdToken = lodash_get (data v2Response) [''id_token'']"
    and "v2RefreshToken = lodash_get (data v2Response) [''refresh_token'']"
    and "truthy v2IdToken"
    and "truthy v2RefreshToken"
    and "axios env (trace s @ [Http (authn_request cfg)])
           (authz_request env cfg v2IdToken v2RefreshToken) = Inr v3Response"
    and "token = lodash_get (data v3Response) [''result'', ''content'', ''token'']"
    and "\<not> truthy token"
    and "s' = snd (getAccessToken env cfg now s)"
  shows "fst (getAccessToken env cfg now s) = Inl (AuthorizationError cfg)
     \<and> s' = s\<lparr>cachedAccessToken := token,
               trace := trace s @ [Http (authn_request cfg),
                                   Http (authz_request env cfg v2IdToken v2RefreshToken)]\<rparr>
     \<and> (truthy (cachedAccessToken s) \<longrightarrow> cachedAccessToken s' \<noteq> cachedAccessToken s)
     \<and> cached_still_valid env later s' = (Inr False, s')
     \<and> (\<exists>rest. trace (snd (getAccessToken env cfg later s')) =
                  trace s' @ Http (authn_request cfg) # rest)"
proof -
  have run: "getAccessToken env cfg now s =
      (Inl (AuthorizationError cfg),
       s\<lparr>cachedAccessToken := token,
         trace := trace s @ [Http (authn_request cfg),
                             Http (authz_request env cfg v2IdToken v2RefreshToken)]\<rparr>)"
    using assms(1-9)
    by (simp add: getAccessToken_def AuthorizationError_def prog_defs Let_def
          del: lodash_get.simps)
  then have s': "s' = s\<lparr>cachedAccessToken := token,
         trace := trace s @ [Http (authn_request cfg),
                             Http (authz_request env cfg v2IdToken v2RefreshToken)]\<rparr>"
    using assms(10) by simp
  have falsy: "\<not> truthy (cachedAccessToken s')"
    using s' assms(9) by simp
  then have check: "cached_still_valid env later s' = (Inr False, s')"
    by (rule cached_still_valid_absent)
  have changed: "truthy (cachedAccessToken s) \<longrightarrow> cachedAccessToken s' \<noteq> cachedAccessToken s"
    using falsy by auto
  show ?thesis
    using run s' changed check getAccessToken_exchange_starts [OF check, of cfg] by simp
qed

theorem getAccessToken_authorization_token_missing_witness:
  "cached_still_valid no_token_env 1000 stale_state = (Inr False, stale_state)
   \<and> lodash_get (JObj [(''result'', JObj [(''content'', JObj [])])])
        [''result'', ''content'', ''token''] = JUndefined
   \<and> fst (getAccessToken no_token_env example_config 1000 stale_state) =
       Inl (Error ''cannot authorize with topcoder: https://authz.example/v3/authorizations'')
   \<and> snd (getAccessToken no_token_env example_config 1000 stale_state) =
       \<lparr>cachedAccessToken = JUndefined,
        trace = [Http (authn_request example_config),
                 Http (authz_request no_token_env example_config (JStr ''id.jwt'')
                         (JStr ''refresh''))]\<rparr>
   \<and> cachedAccessToken stale_state = JStr ''stale.jwt''"
  using getAccessToken_authorization_token_missing
    [of no_token_env 1000 stale_state example_config
        "\<lparr>status = 200,
          data = JObj [(''id_token'', JStr ''id.jwt''), (''refresh_token'', JStr ''refresh'')]\<rparr>"
        "JStr ''id.jwt''" "JStr ''refresh''"
        "\<lparr>status = 200, data = JObj [(''result'', JObj [(''content'', JObj [])])]\<rparr>"
        JUndefined
        "snd (getAccessToken no_token_env example_config 1000 stale_state)" 2000]
  by (simp add: example_defs authn_request_def authz_request_def AuthorizationError_def
        cached_still_valid_def prog_defs)

subsection \<open>The endpoint operations\<close>

text \<open>
  C9. \<^verbatim>\<open>unregisterUserFromChallenge\<close> is \<^verbatim>\<open>removeResourceToChallenge\<close> on the same arguments:
  from every state the two return the same outcome and leave the same state, hence the
  same trace of calls (the same token request, the same DELETE with the same URL, body
  and headers).
\<close>

theorem unregisterUserFromChallenge_is_removeResourceToChallenge:
  "unregisterUserFromChallenge env cfg id' handle roleId s =
   removeResourceToChallenge env cfg id' handle roleId s"
  unfolding unregisterUserFromChallenge_def by (rule await_return_unit)

text \<open>
  C5, as the code has it. On a successful response \<^verbatim>\<open>getProjectBillingAccountId\<close> yields the
  \<^verbatim>\<open>billingAccountId\<close> of the body when that value is truthy, and null when the field is
  absent or holds a falsy value (null, false, 0, the empty string): line 295 tests
  \<^verbatim>\<open>!billingAccountId\<close>, not the presence of the field.
\<close>

theorem getProjectBillingAccountId_success:
  assumes "getMachineToken env (trace s) (AUTH0_CLIENT_ID cfg) (AUTH0_CLIENT_SECRET cfg) = Inr apiKey"
    and "axios env (trace s @ [MachineToken (AUTH0_CLIENT_ID cfg) (AUTH0_CLIENT_SECRET cfg)])
           \<lparr>verb = GET, url = TC_API_URL cfg @ ''/projects/'' @ id', body = None,
            headers = [(''authorization'', ''Bearer '' @ apiKey)], options = []\<rparr> = Inr response"
    and "billingAccountId = lodash_get (data response) [''billingAccountId'']"
  shows "fst (getProjectBillingAccountId env cfg id' s) =
     Inr (if truthy billingAccountId then billingAccountId else JNull)"
  using assms
  by (simp add: getProjectBillingAccountId_def prog_defs Let_def del: lodash_get.simps)

theorem getProjectBillingAccountId_success_witness:
  "getMachineToken billing_env [] ''client'' ''secret'' = Inr ''m2m.jwt''
   \<and> fst (getProjectBillingAccountId billing_env example_config ''42'' cold_state) =
       Inr (JNum 80001012)
   \<and> lodash_get (JObj [(''id'', JNum 42)]) [''billingAccountId''] = JUndefined
   \<and> fst (getProjectBillingAccountId no_billing_env example_config ''42'' cold_state) = Inr JNull"
  using
    getProjectBillingAccountId_success
      [of billing_env cold_state example_config "''m2m.jwt''" "''42''"
          "\<lparr>status = 200, data = JObj [(''id'', JNum 42), (''billingAccountId'', JNum 80001012)]\<rparr>"
          "JNum 80001012"]
    getProjectBillingAccountId_success
      [of no_billing_env cold_state example_config "''m2m.jwt''" "''42''"
          "\<lparr>status = 200, data = JObj [(''id'', JNum 42)]\<rparr>" JUndefined]
  by (simp add: example_defs)

text \<open>
  C5 as stated fails on a body that contains the field with the value 0: the operation
  yields null, not that value.
\<close>

theorem getProjectBillingAccountId_zero_counterexample:
  "property (data zero_billing_response) ''billingAccountId'' = JNum 0
   \<and> axios zero_billing_env [MachineToken ''client'' ''secret'']
        \<lparr>verb = GET, url = ''https://api.example/v5/projects/42'', body = None,
         headers = [(''authorization'', ''Bearer m2m.jwt'')], options = []\<rparr>
       = Inr zero_billing_response
   \<and> fst (getProjectBillingAccountId zero_billing_env example_config ''42'' cold_state) = Inr JNull
   \<and> fst (getProjectBillingAccountId zero_billing_env example_config ''42'' cold_state) \<noteq> Inr (JNum 0)"
  by (simp add: getProjectBillingAccountId_def prog_defs example_defs)

text \<open>The scan of \<^verbatim>\<open>roleAlreadySet\<close> over resources none of which is null or undefined:
  the flag ends up set exactly if it was set before or some resource matches.\<close>

lemma forEach_roleId_scan:
  assumes "\<forall>resource \<in> set rs. resource \<noteq> JNull \<and> resource \<noteq> JUndefined"
  shows "forEach_roleId rs roleId result =
     Inr (result \<or> (\<exists>resource \<in> set rs. property resource ''roleId'' = JStr roleId))"
  using assms
proof (induction rs arbitrary: result)
  case Nil
  then show ?case by simp
next
  case (Cons resource rest)
  then show ?case by auto
qed

text \<open>
  C6. When the fetch succeeds and the body is the challenge's list of resources (an array
  whose elements are resources, none of them null), \<^verbatim>\<open>roleAlreadySet\<close> returns true exactly
  if some resource of the list has the queried \<^verbatim>\<open>roleId\<close>.
\<close>

theorem roleAlreadySet_iff:
  assumes "getMachineToken env (trace s) (AUTH0_CLIENT_ID cfg) (AUTH0_CLIENT_SECRET cfg) = Inr apiKey"
    and "axios env (trace s @ [MachineToken (AUTH0_CLIENT_ID cfg) (AUTH0_CLIENT_SECRET cfg)])
           \<lparr>verb = GET, url = TC_API_URL cfg @ ''/resources?challengeId='' @ id', body = None,
            headers = [(''authorization'', ''Bearer '' @ apiKey)],
            options = [(''Content-Type'', ''application/json'')]\<rparr> = Inr response"
    and "data response = JArr resources"
    and "\<forall>resource \<in> set resources. resource \<noteq> JNull \<and> resource \<noteq> JUndefined"
  shows "fst (roleAlreadySet env cfg id' roleId s) =
     Inr (\<exists>resource \<in> set resources. property resource ''roleId'' = JStr roleId)"
  using assms(1-3) forEach_roleId_scan [OF assms(4), of roleId False]
  by (simp add: roleAlreadySet_def getResourcesFromChallenge_def prog_defs)

text \<open>The three examples of the claim: the list \<^verbatim>\<open>[{roleId: "A"}, {roleId: "B"}]\<close> asked
  for B and for C, and the empty list.\<close>

theorem roleAlreadySet_iff_witness:
  "fst (roleAlreadySet resources_env example_config ''30'' ''B'' cold_state) = Inr True
   \<and> fst (roleAlreadySet resources_env example_config ''30'' ''C'' cold_state) = Inr False
   \<and> fst (roleAlreadySet no_resources_env example_config ''30'' ''B'' cold_state) = Inr False"
  using
    roleAlreadySet_iff
      [of resources_env cold_state example_config "''m2m.jwt''" "''30''"
          "\<lparr>status = 200,
            data = JArr [JObj [(''roleId'', JStr ''A'')], JObj [(''roleId'', JStr ''B'')]]\<rparr>"
          "[JObj [(''roleId'', JStr ''A'')], JObj [(''roleId'', JStr ''B'')]]" "''B''"]
    roleAlreadySet_iff
      [of resources_env cold_state example_config "''m2m.jwt''" "''30''"
          "\<lparr>status = 200,
            data = JArr [JObj [(''roleId'', JStr ''A'')], JObj [(''roleId'', JStr ''B'')]]\<rparr>"
          "[JObj [(''roleId'', JStr ''A'')], JObj [(''roleId'', JStr ''B'')]]" "''C''"]
    roleAlreadySet_iff
      [of no_resources_env cold_state example_config "''m2m.jwt''" "''30''"
          "\<lparr>status = 200, data = JArr []\<rparr>" "[]" "''B''"]
  by (simp add: example_defs)

text \<open>\<^verbatim>\<open>_.map\<close> returns unless what it maps over is array-like with an overlong length.\<close>

lemma lodash_map_returns:
  assumes "\<forall>n. array_like_length v = Some n \<longrightarrow> n \<le> 4294967295"
  shows "\<exists>ys. lodash_map f v = Inr ys"
proof (cases v)
  case (JObj kvs)
  show ?thesis
  proof (cases "array_like_length (JObj kvs)")
    case None
    then show ?thesis using JObj by (simp del: array_like_length.simps)
  next
    case (Some n)
    then have "n \<le> 4294967295" using assms JObj by simp
    then show ?thesis using JObj Some by (simp del: array_like_length.simps)
  qed
qed simp_all

text \<open>
  C7, as the code has it. Every exported operation but \<^verbatim>\<open>getTopcoderMemberId\<close> first asks
  the credential issuer for the machine token and, the token issued, makes one transport
  request whose \<^verbatim>\<open>authorization\<close> header is \<^verbatim>\<open>Bearer\<close> followed by that token; this is so
  whether the request then succeeds or fails. (\<^verbatim>\<open>createChallenge\<close> builds the body of its
  request in between, which takes an argument that is not null or undefined and prizes
  without an overlong \<^verbatim>\<open>length\<close>.) \<^verbatim>\<open>getTopcoderMemberId\<close>, in every state and whatever the
  collaborators answer, makes one call only, the GET of the member: it asks for no
  token, and its request has no headers.
\<close>

theorem operations_send_machine_token_as_bearer:
  fixes env :: env and cfg :: config and s :: state and apiKey :: string
  defines "sent \<equiv> \<lambda>s'. \<exists>req.
      trace s' = trace s @ [MachineToken (AUTH0_CLIENT_ID cfg) (AUTH0_CLIENT_SECRET cfg), Http req]
      \<and> map_of (headers req) ''authorization'' = Some (''Bearer '' @ apiKey)"
  shows "(getMachineToken env (trace s) (AUTH0_CLIENT_ID cfg) (AUTH0_CLIENT_SECRET cfg) = Inr apiKey
      \<longrightarrow>
        sent (snd (createProject env cfg projectName s))
      \<and> sent (snd (getChallengeById env cfg id' s))
      \<and> (challenge \<noteq> JNull \<and> challenge \<noteq> JUndefined
          \<and> (\<forall>n. array_like_length (property challenge ''prizes'') = Some n \<longrightarrow> n \<le> 4294967295)
          \<longrightarrow> sent (snd (createChallenge env cfg challenge s)))
      \<and> sent (snd (updateChallenge env cfg id' challenge s))
      \<and> sent (snd (activateChallenge env cfg id' s))
      \<and> sent (snd (closeChallenge env cfg id' winnerId winnerUsername s))
      \<and> sent (snd (getProjectBillingAccountId env cfg id' s))
      \<and> sent (snd (addResourceToChallenge env cfg id' handle roleId s))
      \<and> sent (snd (getResourcesFromChallenge env cfg id' s))
      \<and> sent (snd (roleAlreadySet env cfg id' roleId s))
      \<and> sent (snd (unregisterUserFromChallenge env cfg id' handle roleId s))
      \<and> sent (snd (cancelPrivateContent env cfg id' s))
      \<and> sent (snd (assignUserAsRegistrant env cfg handle id' s))
      \<and> sent (snd (removeResourceToChallenge env cfg id' handle roleId s)))
     \<and> snd (getTopcoderMemberId env cfg handle s) =
         s\<lparr>trace := trace s @
              [Http \<lparr>verb = GET, url = TC_API_URL_V3 cfg @ ''/members/'' @ handle,
                     body = None, headers = [], options = []\<rparr>]\<rparr>"
proof -
  note splits = sum.splits js_error.splits option.splits json.splits
  note defs = prog_defs err_response_data_def bearer_json_headers_def Let_def
  have member_lookup: "snd (getTopcoderMemberId env cfg handle s) =
      s\<lparr>trace := trace s @
           [Http \<lparr>verb = GET, url = TC_API_URL_V3 cfg @ ''/members/'' @ handle,
                  body = None, headers = [], options = []\<rparr>]\<rparr>"
    by (simp add: getTopcoderMemberId_def prog_defs split: sum.splits del: lodash_get.simps)
  have authorized: "sent (snd (createProject env cfg projectName s))
      \<and> sent (snd (getChallengeById env cfg id' s))
      \<and> (challenge \<noteq> JNull \<and> challenge \<noteq> JUndefined
          \<and> (\<forall>n. array_like_length (property challenge ''prizes'') = Some n \<longrightarrow> n \<le> 4294967295)
          \<longrightarrow> sent (snd (createChallenge env cfg challenge s)))
      \<and> sent (snd (updateChallenge env cfg id' challenge s))
      \<and> sent (snd (activateChallenge env cfg id' s))
      \<and> sent (snd (closeChallenge env cfg id' winnerId winnerUsername s))
      \<and> sent (snd (getProjectBillingAccountId env cfg id' s))
      \<and> sent (snd (addResourceToChallenge env cfg id' handle roleId s))
      \<and> sent (snd (getResourcesFromChallenge env cfg id' s))
      \<and> sent (snd (roleAlreadySet env cfg id' roleId s))
      \<and> sent (snd (unregisterUserFromChallenge env cfg id' handle roleId s))
      \<and> sent (snd (cancelPrivateContent env cfg id' s))
      \<and> sent (snd (assignUserAsRegistrant env cfg handle id' s))
      \<and> sent (snd (removeResourceToChallenge env cfg id' handle roleId s))"
    if token: "getMachineToken env (trace s) (AUTH0_CLIENT_ID cfg) (AUTH0_CLIENT_SECRET cfg) = Inr apiKey"
  proof -
    have 1: "sent (snd (createProject env cfg projectName s))"
      using token unfolding sent_def by (simp add: createProject_def defs split: splits)
    have 2: "sent (snd (getChallengeById env cfg id' s))"
      using token unfolding sent_def by (simp add: getChallengeById_def defs split: splits)
    have 3: "sent (snd (createChallenge env cfg challenge s))"
      if "challenge \<noteq> JNull" "challenge \<noteq> JUndefined"
        and len: "\<forall>n. array_like_length (property challenge ''prizes'') = Some n \<longrightarrow> n \<le> 4294967295"
    proof -
      obtain prizeList where
        "lodash_map (\<lambda>prize. JObj [(''type'', JStr ''money''), (''value'', prize)])
           (property challenge ''prizes'') = Inr prizeList"
        using lodash_map_returns [OF len] by blast
      then show ?thesis
        using token that(1,2) unfolding sent_def
        by (simp add: createChallenge_def member_def defs split: splits)
    qed
    have 4: "sent (snd (updateChallenge env cfg id' challenge s))"
      using token unfolding sent_def by (simp add: updateChallenge_def defs split: splits)
    have 5: "sent (snd (activateChallenge env cfg id' s))"
      using token unfolding sent_def by (simp add: activateChallenge_def defs split: splits)
    have 6: "sent (snd (closeChallenge env cfg id' winnerId winnerUsername s))"
      using token unfolding sent_def by (simp add: closeChallenge_def defs split: splits)
    have 7: "sent (snd (getProjectBillingAccountId env cfg id' s))"
      using token unfolding sent_def
      by (simp add: getProjectBillingAccountId_def defs split: splits del: lodash_get.simps)
    have 8: "sent (snd (addResourceToChallenge env cfg i h r s))" for i h r
      using token unfolding sent_def by (simp add: addResourceToChallenge_def defs split: splits)
    have 9: "sent (snd (getResourcesFromChallenge env cfg id' s))"
      using token unfolding sent_def
      by (simp add: getResourcesFromChallenge_def defs split: splits)
    have 10: "sent (snd (roleAlreadySet env cfg id' roleId s))"
      using token unfolding sent_def
      by (simp add: roleAlreadySet_def getResourcesFromChallenge_def defs split: splits)
    have 14: "sent (snd (removeResourceToChallenge env cfg id' handle roleId s))"
      using token unfolding sent_def
      by (simp add: removeResourceToChallenge_def defs split: splits)
    have 11: "sent (snd (unregisterUserFromChallenge env cfg id' handle roleId s))"
      using 14 by (simp add: unregisterUserFromChallenge_def await_return)
    have 12: "sent (snd (cancelPrivateContent env cfg id' s))"
      using token unfolding sent_def by (simp add: cancelPrivateContent_def defs split: splits)
    have 13: "sent (snd (assignUserAsRegistrant env cfg handle id' s))"
      using 8 [of id' handle "ROLE_ID_SUBMITTER cfg"]
      by (simp add: assignUserAsRegistrant_def await_return)
    show ?thesis
      using 1 2 3 4 5 6 7 8 9 10 11 12 13 14 by blast
  qed
  show ?thesis
    using authorized member_lookup by blast
qed

theorem operations_send_machine_token_as_bearer_witness:
  "getMachineToken failing_env (trace cold_state) ''client'' ''secret'' = Inr ''m2m.jwt''
   \<and> (\<exists>req. trace (snd (createProject failing_env example_config ''tcx'' cold_state)) =
              [MachineToken ''client'' ''secret'', Http req]
            \<and> map_of (headers req) ''authorization'' = Some ''Bearer m2m.jwt'')
   \<and> array_like_length (property (JObj [(''prizes'', JArr [JNum 50])]) ''prizes'') = Some 1
   \<and> (\<exists>req. trace (snd (createChallenge failing_env example_config
                            (JObj [(''prizes'', JArr [JNum 50])]) cold_state)) =
              [MachineToken ''client'' ''secret'', Http req]
            \<and> map_of (headers req) ''authorization'' = Some ''Bearer m2m.jwt'')
   \<and> (\<exists>req. trace (snd (roleAlreadySet failing_env example_config ''30'' ''B'' cold_state)) =
              [MachineToken ''client'' ''secret'', Http req]
            \<and> map_of (headers req) ''authorization'' = Some ''Bearer m2m.jwt'')
   \<and> snd (getTopcoderMemberId failing_env example_config ''alice'' cold_state) =
       \<lparr>cachedAccessToken = JUndefined,
        trace = [Http \<lparr>verb = GET, url = ''https://api.example/v3/members/alice'',
                       body = None, headers = [], options = []\<rparr>]\<rparr>"
  using operations_send_machine_token_as_bearer
    [where env = failing_env and cfg = example_config and s = cold_state
       and apiKey = "''m2m.jwt''" and projectName = "''tcx''"
       and challenge = "JObj [(''prizes'', JArr [JNum 50])]"
       and id' = "''30''" and roleId = "''B''" and handle = "''alice''"]
  by (simp add: example_defs)

text \<open>
  C7 as stated fails on \<^verbatim>\<open>getTopcoderMemberId\<close>: it returns the member's id after a single
  call, the transport request, whose headers are empty; no token was requested.
\<close>

theorem getTopcoderMemberId_no_token_counterexample:
  "getTopcoderMemberId member_env example_config ''alice'' cold_state =
     (Inr (JNum 1234),
      \<lparr>cachedAccessToken = JUndefined,
       trace = [Http \<lparr>verb = GET, url = ''https://api.example/v3/members/alice'',
                      body = None, headers = [], options = []\<rparr>]\<rparr>)"
  by (simp add: getTopcoderMemberId_def prog_defs example_defs)

subsection \<open>Transport failures\<close>

text \<open>A handler that converts at once turns every error of the transport into the
  normalised error around it, here \<^verbatim>\<open>createProject\<close>.\<close>

lemma createProject_transport_failure:
  assumes "getMachineToken env (trace s) (AUTH0_CLIENT_ID cfg) (AUTH0_CLIENT_SECRET cfg) = Inr apiKey"
    and "axios env (trace s @ [MachineToken (AUTH0_CLIENT_ID cfg) (AUTH0_CLIENT_SECRET cfg)])
           \<lparr>verb = POST, url = TC_API_URL cfg @ ''/projects'',
            body = Some (JObj [(''name'', JStr projectName)]),
            headers = bearer_json_headers apiKey, options = []\<rparr> = Inl err"
  shows "fst (createProject env cfg projectName s) =
     Inl (UpstreamRequestError ''Failed to create project.'' err)"
  using assms by (simp add: createProject_def convertTopcoderApiError_def prog_defs)

text \<open>A handler that reads \<^verbatim>\<open>err.response.data\<close> first converts the error when the server
  answered, and faults when no answer came, here \<^verbatim>\<open>updateChallenge\<close>.\<close>

lemma updateChallenge_transport_failure:
  assumes "getMachineToken env (trace s) (AUTH0_CLIENT_ID cfg) (AUTH0_CLIENT_SECRET cfg) = Inr apiKey"
    and "axios env (trace s @ [MachineToken (AUTH0_CLIENT_ID cfg) (AUTH0_CLIENT_SECRET cfg)])
           \<lparr>verb = PATCH, url = TC_API_URL cfg @ ''/challenges/'' @ id',
            body = Some challenge,
            headers = bearer_json_headers apiKey, options = []\<rparr> = Inl (AxiosError m c r)"
  shows "fst (updateChallenge env cfg id' challenge s) =
     (case r of
        Some response \<Rightarrow> Inl (UpstreamRequestError ''Failed to update challenge.'' (AxiosError m c r))
      | None \<Rightarrow> Inl (TypeError ''Cannot read property data of undefined''))"
  using assms
  by (simp add: updateChallenge_def convertTopcoderApiError_def err_response_data_def prog_defs
        split: option.splits)

text \<open>
  C1, at a failing input. \<^verbatim>\<open>updateChallenge\<close> while the network is down: axios rejects with
  an error that has no \<^verbatim>\<open>response\<close>, the handler reads \<^verbatim>\<open>err.response.data\<close> for its log line
  (line 170) before it reaches the conversion (line 174), and what leaves the operation
  is the TypeError of that read, not a normalised error around the transport error.
\<close>

theorem updateChallenge_network_down_faults:
  "updateChallenge offline_env example_config ''30'' (JObj [(''name'', JStr ''x'')]) cold_state =
     (Inl (TypeError ''Cannot read property data of undefined''),
      \<lparr>cachedAccessToken = JUndefined,
       trace = [MachineToken ''client'' ''secret'',
                Http \<lparr>verb = PATCH, url = ''https://api.example/v5/challenges/30'',
                      body = Some (JObj [(''name'', JStr ''x'')]),
                      headers = [(''authorization'', ''Bearer m2m.jwt''),
                                 (''Content-Type'', ''application/json'')],
                      options = []\<rparr>]\<rparr>)"
  by (simp add: updateChallenge_def err_response_data_def bearer_json_headers_def prog_defs
        example_defs)

text \<open>
  C8, at a failing input. With the server answering 500, \<^verbatim>\<open>cancelPrivateContent\<close> raises the
  normalised error with the message of \<^verbatim>\<open>activateChallenge\<close> (line 438, while the log line
  above it says \<^verbatim>\<open>Failed to cancel challenge.\<close>), and \<^verbatim>\<open>removeResourceToChallenge\<close> raises it
  with the message of \<^verbatim>\<open>addResourceToChallenge\<close> (line 480).
\<close>

theorem cancel_and_remove_report_other_operations_message:
  "fst (cancelPrivateContent failing_env example_config ''30'' cold_state) =
     Inl (UpstreamRequestError ''Failed to activate challenge.'' server_error)
   \<and> fst (activateChallenge failing_env example_config ''30'' cold_state) =
     Inl (UpstreamRequestError ''Failed to activate challenge.'' server_error)
   \<and> fst (removeResourceToChallenge failing_env example_config ''30'' ''alice'' ''submitter''
            cold_state) =
     Inl (UpstreamRequestError ''Failed to add resource to the challenge.'' server_error)
   \<and> fst (addResourceToChallenge failing_env example_config ''30'' ''alice'' ''submitter''
            cold_state) =
     Inl (UpstreamRequestError ''Failed to add resource to the challenge.'' server_error)"
  by (simp add: cancelPrivateContent_def activateChallenge_def removeResourceToChallenge_def
        addResourceToChallenge_def convertTopcoderApiError_def err_response_data_def
        prog_defs example_defs)

end
